theory Spec2Isabelle
  imports Complex_Main
begin

section \<open>JavaScript numbers\<close>

text \<open>
  The calculation engine of the finance dashboard (\<^verbatim>\<open>src/lib/calculations/finance.ts\<close>)
  computes on JavaScript numbers. A number is modelled as a real or one of the three
  special values of IEEE 754 that the code can produce by dividing by zero: the two
  infinities and NaN. Finite arithmetic is exact (the rounding error, overflow and
  underflow of binary64 are not modelled), and the two zeros of IEEE 754 are one zero,
  which divides like \<^verbatim>\<open>+0\<close>. Parameters that the callers pass as whole numbers
  (\<^verbatim>\<open>tenureMonths\<close>, \<^verbatim>\<open>years\<close>, validated as positive integers by the loan schema of
  \<^verbatim>\<open>models.ts\<close>) are natural numbers.
\<close>

datatype jsnum = Fin real | PInf | NInf | NaN

fun jneg :: "jsnum \<Rightarrow> jsnum" where
  "jneg (Fin a) = Fin (- a)"
| "jneg PInf = NInf"
| "jneg NInf = PInf"
| "jneg NaN = NaN"

fun jadd :: "jsnum \<Rightarrow> jsnum \<Rightarrow> jsnum" where
  "jadd NaN _ = NaN"
| "jadd _ NaN = NaN"
| "jadd (Fin a) (Fin b) = Fin (a + b)"
| "jadd PInf NInf = NaN"
| "jadd NInf PInf = NaN"
| "jadd PInf _ = PInf"
| "jadd NInf _ = NInf"
| "jadd _ PInf = PInf"
| "jadd _ NInf = NInf"

fun jmul :: "jsnum \<Rightarrow> jsnum \<Rightarrow> jsnum" where
  "jmul NaN _ = NaN"
| "jmul _ NaN = NaN"
| "jmul (Fin a) (Fin b) = Fin (a * b)"
| "jmul (Fin a) PInf = (if a = 0 then NaN else if 0 < a then PInf else NInf)"
| "jmul (Fin a) NInf = (if a = 0 then NaN else if 0 < a then NInf else PInf)"
| "jmul PInf (Fin b) = (if b = 0 then NaN else if 0 < b then PInf else NInf)"
| "jmul NInf (Fin b) = (if b = 0 then NaN else if 0 < b then NInf else PInf)"
| "jmul PInf PInf = PInf"
| "jmul PInf NInf = NInf"
| "jmul NInf PInf = NInf"
| "jmul NInf NInf = PInf"

text \<open>
  Division never raises in JavaScript: \<^verbatim>\<open>0/0\<close> is NaN, a nonzero number over zero is an
  infinity, a finite number over an infinity is zero.
\<close>

fun jdiv :: "jsnum \<Rightarrow> jsnum \<Rightarrow> jsnum" where
  "jdiv NaN _ = NaN"
| "jdiv _ NaN = NaN"
| "jdiv (Fin a) (Fin b) =
     (if b \<noteq> 0 then Fin (a / b)
      else if a = 0 then NaN
      else if 0 < a then PInf else NInf)"
| "jdiv (Fin a) PInf = Fin 0"
| "jdiv (Fin a) NInf = Fin 0"
| "jdiv PInf (Fin b) = (if 0 \<le> b then PInf else NInf)"
| "jdiv NInf (Fin b) = (if 0 \<le> b then NInf else PInf)"
| "jdiv PInf PInf = NaN"
| "jdiv PInf NInf = NaN"
| "jdiv NInf PInf = NaN"
| "jdiv NInf NInf = NaN"

text \<open>The comparisons \<^verbatim>\<open><=\<close> and \<^verbatim>\<open><\<close>: false as soon as one side is NaN.\<close>

fun jle :: "jsnum \<Rightarrow> jsnum \<Rightarrow> bool" where
  "jle NaN _ = False"
| "jle _ NaN = False"
| "jle (Fin a) (Fin b) = (a \<le> b)"
| "jle NInf _ = True"
| "jle _ PInf = True"
| "jle PInf _ = False"
| "jle _ NInf = False"

fun jlt :: "jsnum \<Rightarrow> jsnum \<Rightarrow> bool" where
  "jlt NaN _ = False"
| "jlt _ NaN = False"
| "jlt (Fin a) (Fin b) = (a < b)"
| "jlt PInf _ = False"
| "jlt _ NInf = False"
| "jlt NInf _ = True"
| "jlt _ PInf = True"

instantiation jsnum :: "{plus, minus, uminus, times, inverse, ord}"
begin

definition uminus_jsnum :: "jsnum \<Rightarrow> jsnum" where
  "uminus_jsnum a = jneg a"

definition plus_jsnum :: "jsnum \<Rightarrow> jsnum \<Rightarrow> jsnum" where
  "plus_jsnum a b = jadd a b"

definition minus_jsnum :: "jsnum \<Rightarrow> jsnum \<Rightarrow> jsnum" where
  "minus_jsnum a b = jadd a (jneg b)"

definition times_jsnum :: "jsnum \<Rightarrow> jsnum \<Rightarrow> jsnum" where
  "times_jsnum a b = jmul a b"

definition divide_jsnum :: "jsnum \<Rightarrow> jsnum \<Rightarrow> jsnum" where
  "divide_jsnum a b = jdiv a b"

definition inverse_jsnum :: "jsnum \<Rightarrow> jsnum" where
  "inverse_jsnum a = jdiv (Fin 1) a"

definition less_eq_jsnum :: "jsnum \<Rightarrow> jsnum \<Rightarrow> bool" where
  "less_eq_jsnum a b = jle a b"

definition less_jsnum :: "jsnum \<Rightarrow> jsnum \<Rightarrow> bool" where
  "less_jsnum a b = jlt a b"

instance ..

end

text \<open>
  \<^verbatim>\<open>Math.pow(x, n)\<close> for a whole exponent \<open>n \<ge> 0\<close>, the only exponents the engine uses
  (\<^verbatim>\<open>tenureMonths\<close> and \<^verbatim>\<open>years * 12\<close>). \<^verbatim>\<open>Math.pow(x, 0)\<close> is 1 for every \<open>x\<close>, NaN included.
\<close>

definition Math_pow :: "jsnum \<Rightarrow> nat \<Rightarrow> jsnum" where
  "Math_pow x n =
     (if n = 0 then Fin 1
      else case x of
        Fin a \<Rightarrow> Fin (a ^ n)
      | PInf \<Rightarrow> PInf
      | NInf \<Rightarrow> (if odd n then NInf else PInf)
      | NaN \<Rightarrow> NaN)"

text \<open>
  \<^verbatim>\<open>Math.round\<close> takes the nearest integer, a tie going towards \<open>+\<infinity>\<close>;
  \<^verbatim>\<open>Math.ceil\<close> the least integer above; \<^verbatim>\<open>Math.log\<close> the natural logarithm.
\<close>

fun Math_round :: "jsnum \<Rightarrow> jsnum" where
  "Math_round (Fin a) = Fin (of_int \<lfloor>a + 1 / 2\<rfloor>)"
| "Math_round x = x"

fun Math_ceil :: "jsnum \<Rightarrow> jsnum" where
  "Math_ceil (Fin a) = Fin (of_int \<lceil>a\<rceil>)"
| "Math_ceil x = x"

fun Math_log :: "jsnum \<Rightarrow> jsnum" where
  "Math_log (Fin a) = (if 0 < a then Fin (ln a) else if a = 0 then NInf else NaN)"
| "Math_log PInf = PInf"
| "Math_log NInf = NaN"
| "Math_log NaN = NaN"

text \<open>A whole number read as a JavaScript number.\<close>

definition whole :: "nat \<Rightarrow> jsnum" where
  "whole n = Fin (real n)"

section \<open>EMI\<close>

text \<open>
  \<^verbatim>\<open>calculateEMI\<close>: the monthly rate, the amortisation formula, the result rounded to
  cents. The source has no branch for a zero rate.
\<close>

definition calculateEMI :: "jsnum \<Rightarrow> jsnum \<Rightarrow> nat \<Rightarrow> jsnum" where
  "calculateEMI principal' interestRate tenureMonths =
     (let monthlyRate = interestRate / Fin 100 / Fin 12;
          emi = principal' *
            monthlyRate *
            Math_pow (Fin 1 + monthlyRate) tenureMonths /
            (Math_pow (Fin 1 + monthlyRate) tenureMonths - Fin 1)
      in Math_round (emi * Fin 100) / Fin 100)"

section \<open>Amortization schedule\<close>

record schedule_row =
  month :: nat
  emi :: jsnum
  principalPayment :: jsnum
  interestPayment :: jsnum
  remainingPrincipal :: jsnum

text \<open>
  The \<^verbatim>\<open>for\<close> loop of \<^verbatim>\<open>generateAmortizationSchedule\<close>, from the month it is about to
  run: the state is the unrounded remaining principal and the rows pushed so far.
\<close>

function schedule_loop ::
  "jsnum \<Rightarrow> jsnum \<Rightarrow> nat \<Rightarrow> nat \<Rightarrow> jsnum \<Rightarrow> schedule_row list \<Rightarrow> schedule_row list" where
  "schedule_loop monthlyRate exactEmi tenureMonths month' remainingPrincipal' schedule =
     (if month' \<le> tenureMonths then
        (let interestPayment = remainingPrincipal' * monthlyRate in
         if month' = tenureMonths then
           (let principalPayment = remainingPrincipal' in
            schedule_loop monthlyRate exactEmi tenureMonths (month' + 1) remainingPrincipal'
              (schedule @
               [\<lparr>month = month',
                 emi = Math_round ((interestPayment + principalPayment) * Fin 100) / Fin 100,
                 principalPayment = Math_round (principalPayment * Fin 100) / Fin 100,
                 interestPayment = Math_round (interestPayment * Fin 100) / Fin 100,
                 remainingPrincipal = Fin 0\<rparr>]))
         else
           (let principalPayment = exactEmi - interestPayment;
                remainingPrincipal = remainingPrincipal' - principalPayment in
            schedule_loop monthlyRate exactEmi tenureMonths (month' + 1) remainingPrincipal
              (schedule @
               [\<lparr>month = month',
                 emi = Math_round (exactEmi * Fin 100) / Fin 100,
                 principalPayment = Math_round (principalPayment * Fin 100) / Fin 100,
                 interestPayment = Math_round (interestPayment * Fin 100) / Fin 100,
                 remainingPrincipal = Math_round (remainingPrincipal * Fin 100) / Fin 100\<rparr>])))
      else schedule)"
  by pat_completeness auto
termination
  by (relation "measure (\<lambda>(r, e, t, m, p, s). Suc t - m)") auto

declare schedule_loop.simps [simp del]

definition generateAmortizationSchedule :: "jsnum \<Rightarrow> jsnum \<Rightarrow> nat \<Rightarrow> schedule_row list" where
  "generateAmortizationSchedule principal' interestRate tenureMonths =
     (let monthlyRate = interestRate / Fin 100 / Fin 12;
          exactEmi = principal' * monthlyRate * Math_pow (Fin 1 + monthlyRate) tenureMonths /
            (Math_pow (Fin 1 + monthlyRate) tenureMonths - Fin 1)
      in schedule_loop monthlyRate exactEmi tenureMonths 1 principal' [])"

section \<open>Investment growth\<close>

text \<open>
  \<^verbatim>\<open>calculateInvestmentGrowth\<close>: the compounded initial amount plus the future value of
  the monthly contributions, whose formula divides by the monthly rate.
\<close>

definition calculateInvestmentGrowth :: "jsnum \<Rightarrow> jsnum \<Rightarrow> jsnum \<Rightarrow> nat \<Rightarrow> jsnum" where
  "calculateInvestmentGrowth initialAmount monthlyContribution annualRate years =
     (let monthlyRate = annualRate / Fin 100 / Fin 12;
          totalMonths = years * 12;
          initialGrowth = initialAmount * Math_pow (Fin 1 + monthlyRate) totalMonths;
          contributionGrowth = monthlyContribution *
            (Math_pow (Fin 1 + monthlyRate) totalMonths - Fin 1) /
            monthlyRate
      in Math_round ((initialGrowth + contributionGrowth) * Fin 100) / Fin 100)"

section \<open>Wealth projection\<close>

record projection_point =
  year :: nat
  netWorth :: jsnum

text \<open>
  The \<^verbatim>\<open>for\<close> loop of \<^verbatim>\<open>generateWealthProjection\<close>, from the year it is about to run:
  it pushes the rounded net worth, then applies growth and savings to the unrounded one.
\<close>

function projection_loop ::
  "jsnum \<Rightarrow> jsnum \<Rightarrow> nat \<Rightarrow> nat \<Rightarrow> jsnum \<Rightarrow> projection_point list \<Rightarrow> projection_point list" where
  "projection_loop yearlySavings growthRate years year' currentNetWorth projection =
     (if year' \<le> years then
        projection_loop yearlySavings growthRate years (year' + 1)
          (currentNetWorth * (Fin 1 + growthRate / Fin 100) + yearlySavings)
          (projection @
           [\<lparr>year = year',
             netWorth = Math_round (currentNetWorth * Fin 100) / Fin 100\<rparr>])
      else projection)"
  by pat_completeness auto
termination
  by (relation "measure (\<lambda>(s, g, n, y, c, p). Suc n - y)") auto

declare projection_loop.simps [simp del]

definition generateWealthProjection ::
  "jsnum \<Rightarrow> jsnum \<Rightarrow> jsnum \<Rightarrow> nat \<Rightarrow> projection_point list" where
  "generateWealthProjection initialNetWorth yearlySavings growthRate years =
     projection_loop yearlySavings growthRate years 0 initialNetWorth []"

section \<open>Prepayment impact\<close>

record prepayment_impact =
  originalEMI :: jsnum
  originalTenure :: nat
  reducedEMI :: jsnum
  reducedTenure :: jsnum
  interestSaved :: jsnum
  tenureSaved :: jsnum

text \<open>
  \<^verbatim>\<open>calculatePrepaymentImpact\<close>: the early return when the prepayment clears the loan,
  then the two options of a partial prepayment. Only the second branch rounds
  \<^verbatim>\<open>interestSaved\<close>.
\<close>

definition calculatePrepaymentImpact ::
  "jsnum \<Rightarrow> jsnum \<Rightarrow> nat \<Rightarrow> jsnum \<Rightarrow> prepayment_impact" where
  "calculatePrepaymentImpact principal' interestRate tenureMonths prepaymentAmount =
     (let originalEMI = calculateEMI principal' interestRate tenureMonths;
          reducedPrincipal = principal' - prepaymentAmount
      in if reducedPrincipal \<le> Fin 0 then
           \<lparr>originalEMI = originalEMI,
            originalTenure = tenureMonths,
            reducedEMI = Fin 0,
            reducedTenure = Fin 0,
            interestSaved =
              principal' * interestRate / Fin 100 / Fin 12 * whole tenureMonths - prepaymentAmount,
            tenureSaved = whole tenureMonths\<rparr>
         else
           (let monthlyRate = interestRate / Fin 100 / Fin 12;
                reducedTenure = Math_ceil
                  (Math_log (originalEMI / (originalEMI - reducedPrincipal * monthlyRate)) /
                   Math_log (Fin 1 + monthlyRate));
                reducedEMI = calculateEMI reducedPrincipal interestRate tenureMonths;
                originalTotalPayment = originalEMI * whole tenureMonths;
                reducedTotalPayment = reducedEMI * whole tenureMonths;
                interestSaved = originalTotalPayment - reducedTotalPayment - prepaymentAmount
            in \<lparr>originalEMI = originalEMI,
                originalTenure = tenureMonths,
                reducedEMI = reducedEMI,
                reducedTenure = reducedTenure,
                interestSaved = Math_round (interestSaved * Fin 100) / Fin 100,
                tenureSaved = whole tenureMonths - reducedTenure\<rparr>))"

section \<open>Savings for a goal\<close>

text \<open>
  \<^verbatim>\<open>calculateMonthlySavingsForGoal\<close>: 0 when the current amount grows to the target by
  itself, otherwise the amount still to save over the annuity factor, which divides by
  the monthly rate.
\<close>

definition calculateMonthlySavingsForGoal :: "jsnum \<Rightarrow> jsnum \<Rightarrow> nat \<Rightarrow> jsnum \<Rightarrow> jsnum" where
  "calculateMonthlySavingsForGoal targetAmount currentAmount yearsToGoal annualRate =
     (let monthlyRate = annualRate / Fin 100 / Fin 12;
          totalMonths = yearsToGoal * 12;
          futureValueOfCurrent = currentAmount * Math_pow (Fin 1 + monthlyRate) totalMonths;
          amountToSave = targetAmount - futureValueOfCurrent
      in if amountToSave \<le> Fin 0 then Fin 0
         else
           (let monthlySavings = amountToSave /
                  ((Math_pow (Fin 1 + monthlyRate) totalMonths - Fin 1) / monthlyRate)
            in Math_round (monthlySavings * Fin 100) / Fin 100))"

text \<open>
  A value in whole cents: a finite number that \<^verbatim>\<open>Math.round(x * 100) / 100\<close> leaves as it
  is.
\<close>

definition wholeCents :: "jsnum \<Rightarrow> bool" where
  "wholeCents x = (case x of Fin a \<Rightarrow> Math_round (x * Fin 100) / Fin 100 = x | _ \<Rightarrow> False)"

section \<open>Closed forms used in the proofs\<close>

text \<open>
  What the code computes on finite numbers, as functions on the reals: the rounding
  \<^verbatim>\<open>Math.round(x * 100) / 100\<close>, the unrounded EMI, and the unrounded balance after \<open>k\<close>
  regular months of the schedule loop.
\<close>

definition cents :: "real \<Rightarrow> real" where
  "cents x = of_int \<lfloor>x * 100 + 1 / 2\<rfloor> / 100"

definition exactEmi_real :: "real \<Rightarrow> real \<Rightarrow> nat \<Rightarrow> real" where
  "exactEmi_real P r n = P * r * (1 + r) ^ n / ((1 + r) ^ n - 1)"

definition balance :: "real \<Rightarrow> real \<Rightarrow> nat \<Rightarrow> real \<Rightarrow> real" where
  "balance r E k B = ((\<lambda>b. b - (E - b * r)) ^^ k) B"

section \<open>Arithmetic on finite numbers\<close>

lemmas jsnum_ops = plus_jsnum_def minus_jsnum_def times_jsnum_def divide_jsnum_def
  less_eq_jsnum_def less_jsnum_def uminus_jsnum_def

lemma Fin_arith:
  "Fin a + Fin b = Fin (a + b)"
  "Fin a - Fin b = Fin (a - b)"
  "Fin a * Fin b = Fin (a * b)"
  "b \<noteq> 0 \<Longrightarrow> Fin a / Fin b = Fin (a / b)"
  by (simp_all add: jsnum_ops)

lemma Math_pow_Fin: "Math_pow (Fin a) n = Fin (a ^ n)"
  by (simp add: Math_pow_def)

lemma round_Fin: "Math_round (Fin x * Fin 100) / Fin 100 = Fin (cents x)"
  by (simp add: jsnum_ops cents_def)

lemma cents_mono: "x \<le> y \<Longrightarrow> cents x \<le> cents y"
  unfolding cents_def by (simp add: divide_right_mono floor_mono)

lemma wholeCents_cents: "wholeCents (Fin (cents x))"
  by (simp add: wholeCents_def Fin_arith cents_def)

lemma monthlyRate_Fin: "Fin rate / Fin 100 / Fin 12 = Fin (rate / 100 / 12)"
  by (simp add: Fin_arith)

lemma growth_factor_gt_1:
  assumes "0 < (r::real)" "1 \<le> (n::nat)"
  shows "1 < (1 + r) ^ n"
  using assms by (intro one_less_power) simp_all

lemma exactEmi_Fin:
  assumes "(1 + r) ^ n \<noteq> 1"
  shows "Fin P * Fin r * Math_pow (Fin 1 + Fin r) n / (Math_pow (Fin 1 + Fin r) n - Fin 1) =
    Fin (exactEmi_real P r n)"
  using assms by (simp add: Fin_arith Math_pow_Fin exactEmi_real_def)

text \<open>With a positive rate and at least one month, the EMI is a finite number of cents.\<close>

lemma calculateEMI_Fin:
  assumes "0 < rate" "1 \<le> n"
  shows "calculateEMI (Fin P) (Fin rate) n = Fin (cents (exactEmi_real P (rate / 100 / 12) n))"
proof -
  have "1 < (1 + rate / 100 / 12) ^ n"
    using assms by (intro growth_factor_gt_1) simp_all
  then have ne: "(1 + rate / 100 / 12) ^ n \<noteq> 1" by simp
  show ?thesis
    unfolding calculateEMI_def Let_def monthlyRate_Fin exactEmi_Fin [OF ne]
    by (rule round_Fin)
qed

section \<open>The zero rate\<close>

text \<open>
  None of the three formulas has a branch for a zero rate: each divides zero by zero (or
  by the NaN that gives), and NaN goes through \<^verbatim>\<open>Math.round\<close> to the result.
\<close>

lemma calculateEMI_zero_rate: "calculateEMI (Fin p) (Fin 0) n = NaN"
  by (simp add: calculateEMI_def Math_pow_def jsnum_ops Let_def)

lemma calculateInvestmentGrowth_zero_rate:
  "calculateInvestmentGrowth (Fin i) (Fin c) (Fin 0) y = NaN"
  by (simp add: calculateInvestmentGrowth_def Math_pow_def jsnum_ops Let_def)

lemma calculateMonthlySavingsForGoal_zero_rate:
  "c < t \<Longrightarrow> calculateMonthlySavingsForGoal (Fin t) (Fin c) y (Fin 0) = NaN"
  by (simp add: calculateMonthlySavingsForGoal_def Math_pow_def jsnum_ops Let_def)

section \<open>The schedule loop\<close>

lemma schedule_loop_length:
  "month' \<le> Suc tenureMonths \<Longrightarrow>
   length (schedule_loop monthlyRate exactEmi tenureMonths month' remainingPrincipal' schedule) =
     length schedule + (Suc tenureMonths - month')"
proof (induction monthlyRate exactEmi tenureMonths month' remainingPrincipal' schedule
    rule: schedule_loop.induct)
  case (1 monthlyRate exactEmi tenureMonths month' remainingPrincipal' schedule)
  show ?case
  proof (cases "month' \<le> tenureMonths")
    case True
    then show ?thesis
      using "1.IH" by (subst schedule_loop.simps) (auto simp: Let_def)
  next
    case False
    with "1.prems" show ?thesis
      by (subst schedule_loop.simps) simp
  qed
qed

lemma schedule_loop_last:
  "month' \<le> tenureMonths \<Longrightarrow>
   remainingPrincipal
     (last (schedule_loop monthlyRate exactEmi tenureMonths month' remainingPrincipal' schedule)) =
     Fin 0"
proof (induction monthlyRate exactEmi tenureMonths month' remainingPrincipal' schedule
    rule: schedule_loop.induct)
  case (1 monthlyRate exactEmi tenureMonths month' remainingPrincipal' schedule)
  show ?case
  proof (cases "month' = tenureMonths")
    case True
    then show ?thesis
      by (simp add: schedule_loop.simps [of _ _ tenureMonths tenureMonths]
          schedule_loop.simps [of _ _ tenureMonths "Suc tenureMonths"] Let_def)
  next
    case False
    with "1.prems" have lt: "month' + 1 \<le> tenureMonths" by simp
    show ?thesis
      using "1.prems" False "1.IH"(2) [OF "1.prems" refl False refl refl lt]
      by (subst schedule_loop.simps) (simp add: Let_def)
  qed
qed

text \<open>The loop only appends: the rows already pushed stay where they are.\<close>

lemma schedule_loop_prefix:
  "i < length schedule \<Longrightarrow>
   schedule_loop monthlyRate exactEmi tenureMonths month' remainingPrincipal' schedule ! i =
     schedule ! i"
proof (induction monthlyRate exactEmi tenureMonths month' remainingPrincipal' schedule
    rule: schedule_loop.induct)
  case (1 monthlyRate exactEmi tenureMonths month' remainingPrincipal' schedule)
  show ?case
  proof (cases "month' \<le> tenureMonths")
    case True
    then show ?thesis
      using "1.IH" "1.prems" by (subst schedule_loop.simps) (simp add: nth_append Let_def)
  next
    case False
    then show ?thesis
      by (subst schedule_loop.simps) simp
  qed
qed

lemma balance_0: "balance r E 0 B = B"
  by (simp add: balance_def)

lemma balance_Suc: "balance r E (Suc k) B = balance r E k (B - (E - B * r))"
  by (simp add: balance_def funpow_Suc_right del: funpow.simps)

lemma balance_step: "balance r E (Suc k) B = balance r E k B - (E - balance r E k B * r)"
  by (simp add: balance_def)

text \<open>
  The row pushed \<open>k\<close> iterations after month \<open>month'\<close>, on finite numbers: its interest is
  the rounded interest on the balance, its principal the rounded rest of the EMI, or the
  rounded balance itself in the last month.
\<close>

lemma schedule_loop_nth:
  "month' + k \<le> tenureMonths \<Longrightarrow>
   interestPayment (schedule_loop (Fin r) (Fin E) tenureMonths month' (Fin B) schedule
      ! (length schedule + k)) = Fin (cents (balance r E k B * r))
   \<and> principalPayment (schedule_loop (Fin r) (Fin E) tenureMonths month' (Fin B) schedule
      ! (length schedule + k)) =
      Fin (cents (if month' + k = tenureMonths then balance r E k B
                  else E - balance r E k B * r))"
proof (induction k arbitrary: month' B schedule)
  case 0
  then show ?case
    by (subst (1 2) schedule_loop.simps)
      (simp add: schedule_loop_prefix Let_def balance_0 Fin_arith cents_def algebra_simps)
next
  case (Suc k)
  from Suc.prems have lt: "month' < tenureMonths" and nxt: "(month' + 1) + k \<le> tenureMonths"
    by simp_all
  let ?B' = "B - (E - B * r)"
  let ?row = "\<lparr>month = month', emi = Math_round (Fin E * Fin 100) / Fin 100,
      principalPayment = Math_round ((Fin E - Fin B * Fin r) * Fin 100) / Fin 100,
      interestPayment = Math_round (Fin B * Fin r * Fin 100) / Fin 100,
      remainingPrincipal = Math_round ((Fin B - (Fin E - Fin B * Fin r)) * Fin 100) / Fin 100\<rparr>"
  have unfold: "schedule_loop (Fin r) (Fin E) tenureMonths month' (Fin B) schedule =
      schedule_loop (Fin r) (Fin E) tenureMonths (month' + 1) (Fin ?B') (schedule @ [?row])"
    using lt by (subst schedule_loop.simps) (simp add: Let_def Fin_arith)
  have idx: "length (schedule @ [?row]) + k = length schedule + Suc k" by simp
  have cond: "(month' + 1 + k = tenureMonths) = (month' + Suc k = tenureMonths)" by simp
  show ?case
    using Suc.IH [OF nxt, where B = ?B' and schedule = "schedule @ [?row]"]
    unfolding unfold idx cond balance_Suc .
qed

lemma generateAmortizationSchedule_Fin:
  assumes "0 < rate" "1 \<le> n"
  shows "generateAmortizationSchedule (Fin P) (Fin rate) n =
    schedule_loop (Fin (rate / 100 / 12)) (Fin (exactEmi_real P (rate / 100 / 12) n)) n 1 (Fin P) []"
proof -
  have "1 < (1 + rate / 100 / 12) ^ n"
    using assms by (intro growth_factor_gt_1) simp_all
  then have ne: "(1 + rate / 100 / 12) ^ n \<noteq> 1" by simp
  show ?thesis
    unfolding generateAmortizationSchedule_def Let_def monthlyRate_Fin exactEmi_Fin [OF ne] ..
qed

text \<open>The unrounded balance after \<open>k\<close> months, paying the exact EMI.\<close>

lemma balance_closed:
  assumes "(1 + r) ^ n \<noteq> 1"
  shows "balance r (exactEmi_real P r n) k P = P * ((1 + r) ^ n - (1 + r) ^ k) / ((1 + r) ^ n - 1)"
proof (induction k)
  case 0
  from assms show ?case by (simp add: balance_0)
next
  case (Suc k)
  let ?D = "(1 + r) ^ n - 1"
  let ?X = "P * ((1 + r) ^ n - (1 + r) ^ k) / ?D"
  have "balance r (exactEmi_real P r n) (Suc k) P = ?X - (exactEmi_real P r n - ?X * r)"
    by (simp only: balance_step Suc.IH)
  also have "\<dots> = (P * ((1 + r) ^ n - (1 + r) ^ k)
      - (P * r * (1 + r) ^ n - P * ((1 + r) ^ n - (1 + r) ^ k) * r)) / ?D"
    by (simp add: exactEmi_real_def diff_divide_distrib)
  also have "P * ((1 + r) ^ n - (1 + r) ^ k)
      - (P * r * (1 + r) ^ n - P * ((1 + r) ^ n - (1 + r) ^ k) * r) =
      P * ((1 + r) ^ n - (1 + r) ^ Suc k)"
    by (simp add: algebra_simps)
  finally show ?case .
qed

text \<open>
  The reported portions of row \<open>k\<close> (counted from 0), the last row included: in exact
  arithmetic the balance left for the last month is the principal part of a regular EMI.
\<close>

lemma row_values:
  assumes "0 < rate" "k < n"
  defines "r \<equiv> rate / 100 / 12"
  shows "interestPayment (generateAmortizationSchedule (Fin P) (Fin rate) n ! k) =
      Fin (cents (P * r * ((1 + r) ^ n - (1 + r) ^ k) / ((1 + r) ^ n - 1)))"
    and "principalPayment (generateAmortizationSchedule (Fin P) (Fin rate) n ! k) =
      Fin (cents (P * r * (1 + r) ^ k / ((1 + r) ^ n - 1)))"
proof -
  have n1: "1 \<le> n" using assms(2) by simp
  have r0: "0 < r" using assms(1) by (simp add: r_def)
  have gt: "1 < (1 + r) ^ n" using r0 n1 by (rule growth_factor_gt_1)
  then have ne: "(1 + r) ^ n \<noteq> 1" and nz: "(1 + r) ^ n - 1 \<noteq> 0" by simp_all
  let ?E = "exactEmi_real P r n"
  have le: "1 + k \<le> n" using assms(2) by simp
  note nth = schedule_loop_nth [OF le, of r ?E P "[]", simplified]
  have bal: "balance r ?E k P = P * ((1 + r) ^ n - (1 + r) ^ k) / ((1 + r) ^ n - 1)"
    using ne by (rule balance_closed)
  show "interestPayment (generateAmortizationSchedule (Fin P) (Fin rate) n ! k) =
      Fin (cents (P * r * ((1 + r) ^ n - (1 + r) ^ k) / ((1 + r) ^ n - 1)))"
    unfolding generateAmortizationSchedule_Fin [OF assms(1) n1] r_def [symmetric]
    using nth bal by (simp add: ac_simps)
  have pp: "(if Suc k = n then balance r ?E k P else ?E - balance r ?E k P * r) =
      P * r * (1 + r) ^ k / ((1 + r) ^ n - 1)"
  proof (cases "Suc k = n")
    case True
    then have "(1 + r) ^ n = (1 + r) * (1 + r) ^ k" by auto
    then show ?thesis using True nz unfolding bal by (simp add: field_simps)
  next
    case False
    have "?E - P * ((1 + r) ^ n - (1 + r) ^ k) / ((1 + r) ^ n - 1) * r =
        (P * r * (1 + r) ^ n - P * ((1 + r) ^ n - (1 + r) ^ k) * r) / ((1 + r) ^ n - 1)"
      by (simp add: exactEmi_real_def diff_divide_distrib)
    also have "P * r * (1 + r) ^ n - P * ((1 + r) ^ n - (1 + r) ^ k) * r = P * r * (1 + r) ^ k"
      by (simp add: algebra_simps)
    finally show ?thesis using False by (simp add: bal)
  qed
  show "principalPayment (generateAmortizationSchedule (Fin P) (Fin rate) n ! k) =
      Fin (cents (P * r * (1 + r) ^ k / ((1 + r) ^ n - 1)))"
    unfolding generateAmortizationSchedule_Fin [OF assms(1) n1] r_def [symmetric]
    using nth pp by simp
qed

section \<open>The projection loop\<close>

lemma projection_loop_length:
  "year' \<le> Suc years \<Longrightarrow>
   length (projection_loop yearlySavings growthRate years year' currentNetWorth projection) =
     length projection + (Suc years - year')"
proof (induction yearlySavings growthRate years year' currentNetWorth projection
    rule: projection_loop.induct)
  case (1 yearlySavings growthRate years year' currentNetWorth projection)
  show ?case
  proof (cases "year' \<le> years")
    case True
    then show ?thesis
      using "1.IH" by (subst projection_loop.simps) auto
  next
    case False
    with "1.prems" show ?thesis
      by (subst projection_loop.simps) simp
  qed
qed

lemma projection_loop_prefix:
  "i < length projection \<Longrightarrow>
   projection_loop yearlySavings growthRate years year' currentNetWorth projection ! i =
     projection ! i"
proof (induction yearlySavings growthRate years year' currentNetWorth projection
    rule: projection_loop.induct)
  case (1 yearlySavings growthRate years year' currentNetWorth projection)
  show ?case
  proof (cases "year' \<le> years")
    case True
    then show ?thesis
      using "1.IH" "1.prems" by (subst projection_loop.simps) (simp add: nth_append)
  next
    case False
    then show ?thesis
      by (subst projection_loop.simps) simp
  qed
qed

text \<open>
  The point pushed \<open>k\<close> iterations after year \<open>year'\<close>: the recurrence applied \<open>k\<close> times to
  the unrounded net worth, rounded when it is recorded.
\<close>

lemma projection_loop_nth:
  "year' + k \<le> years \<Longrightarrow>
   projection_loop yearlySavings growthRate years year' currentNetWorth projection
     ! (length projection + k) =
   \<lparr>year = year' + k,
    netWorth = Math_round
      (((\<lambda>c. c * (Fin 1 + growthRate / Fin 100) + yearlySavings) ^^ k) currentNetWorth
        * Fin 100) / Fin 100\<rparr>"
proof (induction k arbitrary: year' currentNetWorth projection)
  case 0
  then show ?case
    by (subst projection_loop.simps) (simp add: projection_loop_prefix)
next
  case (Suc k)
  from Suc.prems have le: "year' \<le> years" and nxt: "(year' + 1) + k \<le> years" by simp_all
  show ?case
    using Suc.IH [OF nxt, of "currentNetWorth * (Fin 1 + growthRate / Fin 100) + yearlySavings"
        "projection @ [\<lparr>year = year', netWorth = Math_round (currentNetWorth * Fin 100) / Fin 100\<rparr>]"]
      le
    by (subst projection_loop.simps) (simp add: funpow_Suc_right del: funpow.simps)
qed

lemma growth_Fin:
  "((\<lambda>c. c * (Fin 1 + Fin g / Fin 100) + Fin s) ^^ k) (Fin c) =
   Fin (((\<lambda>x. x * (1 + g / 100) + s) ^^ k) c)"
  by (induction k) (simp_all add: jsnum_ops)

lemma growth_nonneg:
  "0 \<le> c \<Longrightarrow> 0 \<le> s \<Longrightarrow> 0 \<le> g \<Longrightarrow> 0 \<le> ((\<lambda>x. x * (1 + g / 100) + s) ^^ k) (c::real)"
  by (induction k) simp_all

lemma growth_step_mono:
  assumes "0 \<le> c" "0 \<le> s" "0 \<le> g"
  shows "((\<lambda>x. x * (1 + g / 100) + s) ^^ k) (c::real)
    \<le> ((\<lambda>x. x * (1 + g / 100) + s) ^^ Suc k) c"
proof -
  let ?w = "((\<lambda>x. x * (1 + g / 100) + s) ^^ k) c"
  have "0 \<le> ?w" using assms by (rule growth_nonneg)
  then have "?w * 1 \<le> ?w * (1 + g / 100)" using assms(3) by (intro mult_left_mono) simp_all
  then show ?thesis using assms(2) by simp
qed

section \<open>The claims\<close>

text \<open>
  C1. For every principal and rate (so also for every principal \<open>> 0\<close> and rate \<open>> 0\<close>)
  and every whole \<^verbatim>\<open>tenureMonths\<close> \<open>\<ge> 1\<close>, \<^verbatim>\<open>generateAmortizationSchedule\<close> returns exactly
  \<^verbatim>\<open>tenureMonths\<close> rows, and the \<^verbatim>\<open>remainingPrincipal\<close> of the last row is exactly 0: the
  last iteration writes the literal 0 whatever the unrounded balance is.
\<close>

theorem schedule_length_and_final_zero:
  assumes "1 \<le> tenureMonths"
  shows "length (generateAmortizationSchedule principal' interestRate tenureMonths) = tenureMonths
    \<and> remainingPrincipal
        (last (generateAmortizationSchedule principal' interestRate tenureMonths)) = Fin 0"
  using assms
  by (simp add: generateAmortizationSchedule_def Let_def schedule_loop_length schedule_loop_last)

theorem schedule_length_and_final_zero_witness:
  "(1::nat) \<le> 3
   \<and> length (generateAmortizationSchedule (Fin 100000) (Fin 10) 3) = 3
   \<and> remainingPrincipal (last (generateAmortizationSchedule (Fin 100000) (Fin 10) 3)) = Fin 0"
  using schedule_length_and_final_zero [of 3 "Fin 100000" "Fin 10"] by simp

text \<open>
  C2. The claim: \<^verbatim>\<open>calculateEMI(principal, 0, tenureMonths)\<close> is
  \<^verbatim>\<open>principal / tenureMonths\<close>. The code has no zero-rate branch: at the input of its own
  test \<^verbatim>\<open>should handle zero interest rate\<close>, \<^verbatim>\<open>calculateEMI(100000, 0, 12)\<close>, it computes
  \<^verbatim>\<open>0 / 0\<close> and returns NaN, not 8333.33.
\<close>

theorem calculateEMI_zero_rate_NaN:
  "calculateEMI (Fin 100000) (Fin 0) 12 = NaN
   \<and> calculateEMI (Fin 100000) (Fin 0) 12 \<noteq> Fin (cents (100000 / 12))"
  by (simp add: calculateEMI_def Math_pow_def jsnum_ops Let_def)

text \<open>
  C3. The claim: with a zero rate \<^verbatim>\<open>calculateInvestmentGrowth\<close> returns
  \<^verbatim>\<open>initialAmount + monthlyContribution * 12 * years\<close> rounded to cents. The code divides
  the contribution term by the zero monthly rate: \<^verbatim>\<open>calculateInvestmentGrowth(100000, 5000, 0, 10)\<close>
  is NaN, not 700000.
\<close>

theorem calculateInvestmentGrowth_zero_rate_NaN:
  "calculateInvestmentGrowth (Fin 100000) (Fin 5000) (Fin 0) 10 = NaN
   \<and> calculateInvestmentGrowth (Fin 100000) (Fin 5000) (Fin 0) 10
      \<noteq> Fin (cents (100000 + 5000 * 12 * 10))"
  by (simp add: calculateInvestmentGrowth_def Math_pow_def jsnum_ops Let_def)

text \<open>
  C4. The claim: with a zero rate and \<^verbatim>\<open>targetAmount > currentAmount\<close>,
  \<^verbatim>\<open>calculateMonthlySavingsForGoal\<close> returns
  \<^verbatim>\<open>(targetAmount - currentAmount) / (12 * yearsToGoal)\<close> rounded to cents. The code divides
  by the annuity factor \<^verbatim>\<open>0 / 0\<close>: at the input of its own test
  \<^verbatim>\<open>should handle zero growth rate\<close>, \<^verbatim>\<open>calculateMonthlySavingsForGoal(60000, 0, 5, 0)\<close>, it
  returns NaN, not 1000.
\<close>

theorem calculateMonthlySavingsForGoal_zero_rate_NaN:
  "calculateMonthlySavingsForGoal (Fin 60000) (Fin 0) 5 (Fin 0) = NaN
   \<and> calculateMonthlySavingsForGoal (Fin 60000) (Fin 0) 5 (Fin 0)
      \<noteq> Fin (cents ((60000 - 0) / (12 * 5)))"
  by (simp add: calculateMonthlySavingsForGoal_def Math_pow_def jsnum_ops Let_def)

text \<open>
  C5, as amended. For every \<^verbatim>\<open>initialNetWorth\<close>, \<^verbatim>\<open>yearlySavings\<close>, \<^verbatim>\<open>growthRate\<close> and whole
  \<^verbatim>\<open>years\<close> \<open>\<ge> 0\<close>, \<^verbatim>\<open>generateWealthProjection\<close> returns exactly \<^verbatim>\<open>years + 1\<close> points, and the
  point for year 0 is \<^verbatim>\<open>initialNetWorth\<close> with no growth applied, rounded to cents by
  \<^verbatim>\<open>Math.round(x * 100) / 100\<close> like every other point.
\<close>

theorem projection_length_and_first_point:
  "length (generateWealthProjection initialNetWorth yearlySavings growthRate years) = years + 1
   \<and> netWorth (generateWealthProjection initialNetWorth yearlySavings growthRate years ! 0) =
       Math_round (initialNetWorth * Fin 100) / Fin 100"
  using projection_loop_nth [of 0 0 years yearlySavings growthRate initialNetWorth "[]"]
  by (simp add: generateWealthProjection_def projection_loop_length)

theorem projection_length_and_first_point_witness:
  "length (generateWealthProjection (Fin 100000) (Fin 60000) (Fin 10) 5) = 6
   \<and> netWorth (generateWealthProjection (Fin 100000) (Fin 60000) (Fin 10) 5 ! 0) = Fin 100000"
  using projection_length_and_first_point [of "Fin 100000" "Fin 60000" "Fin 10" 5]
  by (simp add: jsnum_ops)

text \<open>
  The claim as stated (the point for year 0 is \<^verbatim>\<open>initialNetWorth\<close> unchanged, without
  rounding) fails for a net worth that is not a whole number of cents: 0.125 is recorded
  as 0.13.
\<close>

theorem projection_first_point_counterexample:
  "netWorth (generateWealthProjection (Fin (1 / 8)) (Fin 0) (Fin 0) 0 ! 0) = Fin (13 / 100)
   \<and> netWorth (generateWealthProjection (Fin (1 / 8)) (Fin 0) (Fin 0) 0 ! 0) \<noteq> Fin (1 / 8)"
  by (simp add: generateWealthProjection_def projection_loop.simps jsnum_ops)

text \<open>
  C6, as amended. For every \<^verbatim>\<open>initialNetWorth\<close> \<open>\<ge> 0\<close>, \<^verbatim>\<open>yearlySavings\<close> \<open>> 0\<close>,
  \<^verbatim>\<open>growthRate\<close> \<open>\<ge> 0\<close> and whole \<^verbatim>\<open>years\<close> \<open>\<ge> 1\<close>, each point of
  \<^verbatim>\<open>generateWealthProjection\<close> has a \<^verbatim>\<open>netWorth\<close> greater than or equal to that of the point
  before it.
\<close>

theorem projection_nondecreasing:
  assumes "0 \<le> i" "0 < s" "0 \<le> g" "Suc k \<le> years"
  shows "netWorth (generateWealthProjection (Fin i) (Fin s) (Fin g) years ! k)
     \<le> netWorth (generateWealthProjection (Fin i) (Fin s) (Fin g) years ! Suc k)"
proof -
  have a: "0 + k \<le> years" and b: "0 + Suc k \<le> years" using assms(4) by simp_all
  have "cents (((\<lambda>x. x * (1 + g / 100) + s) ^^ k) i)
      \<le> cents (((\<lambda>x. x * (1 + g / 100) + s) ^^ Suc k) i)"
    using assms by (intro cents_mono growth_step_mono) simp_all
  then show ?thesis
    using projection_loop_nth [OF a, of "Fin s" "Fin g" "Fin i" "[]"]
      projection_loop_nth [OF b, of "Fin s" "Fin g" "Fin i" "[]"]
    unfolding generateWealthProjection_def growth_Fin round_Fin
    by (simp add: less_eq_jsnum_def)
qed

theorem projection_nondecreasing_witness:
  "(0::real) \<le> 100000 \<and> (0::real) < 60000 \<and> (0::real) \<le> 10 \<and> Suc 0 \<le> (5::nat)
   \<and> netWorth (generateWealthProjection (Fin 100000) (Fin 60000) (Fin 10) 5 ! 0)
     \<le> netWorth (generateWealthProjection (Fin 100000) (Fin 60000) (Fin 10) 5 ! Suc 0)"
  using projection_nondecreasing [of 100000 60000 10 0 5] by simp

text \<open>
  The claim as stated (strictly greater, for every \<^verbatim>\<open>initialNetWorth\<close>) fails twice. A
  negative net worth shrinks faster than the savings add: from -1000 with savings 100 and
  25 percent growth the next point is -1150. And rounding to cents can merge two points:
  from 0 with savings 1/512 and no growth both points are 0.
\<close>

theorem projection_strict_counterexample:
  "\<not> (netWorth (generateWealthProjection (Fin (- 1000)) (Fin 100) (Fin 25) 1 ! 0)
       < netWorth (generateWealthProjection (Fin (- 1000)) (Fin 100) (Fin 25) 1 ! 1))
   \<and> \<not> (netWorth (generateWealthProjection (Fin 0) (Fin (1 / 512)) (Fin 0) 1 ! 0)
       < netWorth (generateWealthProjection (Fin 0) (Fin (1 / 512)) (Fin 0) 1 ! 1))"
  by (simp add: generateWealthProjection_def projection_loop.simps jsnum_ops)






text \<open>
  C8. The claim: \<^verbatim>\<open>originalEMI\<close>, \<^verbatim>\<open>reducedEMI\<close> and \<^verbatim>\<open>interestSaved\<close> are rounded to 2
  decimals in both branches of \<^verbatim>\<open>calculatePrepaymentImpact\<close>. The branch of a partial
  prepayment rounds \<^verbatim>\<open>interestSaved\<close>; the early return of the full clearance does not:
  \<^verbatim>\<open>calculatePrepaymentImpact(1000, 10, 1, 1000)\<close> reports -2975/3, that is -991.666...
\<close>

theorem full_clearance_interestSaved_not_rounded:
  "interestSaved (calculatePrepaymentImpact (Fin 1000) (Fin 10) 1 (Fin 1000)) = Fin (- 2975 / 3)
   \<and> \<not> wholeCents (interestSaved (calculatePrepaymentImpact (Fin 1000) (Fin 10) 1 (Fin 1000)))"
  by (simp add: calculatePrepaymentImpact_def calculateEMI_def Math_pow_def jsnum_ops Let_def
      whole_def wholeCents_def)

text \<open>The sibling branch: every monetary output of a valid partial prepayment is in cents.\<close>

lemma partial_prepayment_outputs_wholeCents:
  assumes "0 < rate" "1 \<le> n" "prepay < P"
  shows "wholeCents (originalEMI (calculatePrepaymentImpact (Fin P) (Fin rate) n (Fin prepay)))
    \<and> wholeCents (reducedEMI (calculatePrepaymentImpact (Fin P) (Fin rate) n (Fin prepay)))
    \<and> wholeCents (interestSaved (calculatePrepaymentImpact (Fin P) (Fin rate) n (Fin prepay)))"
proof -
  have split: "Fin P - Fin prepay = Fin (P - prepay)" by (simp add: Fin_arith)
  have partial: "\<not> Fin (P - prepay) \<le> Fin 0" using assms(3) by (simp add: less_eq_jsnum_def)
  have saved: "Math_round ((Fin a * whole n - Fin b * whole n - Fin prepay) * Fin 100) / Fin 100 =
      Fin (cents (a * real n - b * real n - prepay))" for a b
    by (simp add: whole_def Fin_arith cents_def)
  show ?thesis
    unfolding calculatePrepaymentImpact_def Let_def split calculateEMI_Fin [OF assms(1,2)]
    using partial by (simp add: saved wholeCents_cents)
qed

text \<open>
  C9, as amended. For every schedule of \<^verbatim>\<open>generateAmortizationSchedule\<close> with principal
  \<open>> 0\<close>, an annual rate between 0.000001 and 40 percent and a whole tenure of 2 to 1000
  months, the reported \<^verbatim>\<open>interestPayment\<close> never increases from one period to the next,
  and the reported \<^verbatim>\<open>principalPayment\<close> never decreases from one period to the next up to
  the last regular period. Nothing is said of the \<^verbatim>\<open>principalPayment\<close> of the final row,
  which is the carried remaining balance and not the rest of the EMI.

  The bounds on the rate and the tenure, and the exclusion of the final principal, are
  not needed by the proof, which is in the exact arithmetic of this model (there the
  final principal continues the sequence, see \<open>row_values\<close>). They mark where the statement
  carries over to binary64: within the bounds the exact EMI is at least the first
  interest, so the carried balance never grows, the interest on it never grows, and the
  rest of the EMI never shrinks, every operation being monotone. Outside them
  \<^verbatim>\<open>1 + monthlyRate\<close> can be 1 and the EMI \<^verbatim>\<open>Infinity\<close>; and the final principal carries the
  rounding drift of all the months before it, which can put it a cent below its
  predecessor.
\<close>

theorem schedule_portions_monotone:
  assumes "0 < P" "1 / 1000000 \<le> rate" "rate \<le> 40" "n \<le> 1000" "Suc k < n"
  shows "interestPayment (generateAmortizationSchedule (Fin P) (Fin rate) n ! Suc k)
       \<le> interestPayment (generateAmortizationSchedule (Fin P) (Fin rate) n ! k)
     \<and> (Suc (Suc k) < n \<longrightarrow>
        principalPayment (generateAmortizationSchedule (Fin P) (Fin rate) n ! k)
          \<le> principalPayment (generateAmortizationSchedule (Fin P) (Fin rate) n ! Suc k))"
proof -
  define r where "r = rate / 100 / 12"
  have rate0: "0 < rate" using assms(2) by simp
  have r0: "0 < r" using rate0 by (simp add: r_def)
  have k: "k < n" using assms(5) by simp
  have gt: "1 < (1 + r) ^ n" using r0 assms(5) by (intro growth_factor_gt_1) simp_all
  then have D: "0 < (1 + r) ^ n - 1" by simp
  have pw: "(1 + r) ^ k \<le> (1 + r) ^ Suc k"
    using r0 by (intro power_increasing) simp_all
  have Pr: "0 \<le> P * r" using assms(1) r0 by simp
  have "P * r * ((1 + r) ^ n - (1 + r) ^ Suc k) \<le> P * r * ((1 + r) ^ n - (1 + r) ^ k)"
    using pw Pr by (intro mult_left_mono) simp_all
  then have i: "P * r * ((1 + r) ^ n - (1 + r) ^ Suc k) / ((1 + r) ^ n - 1)
      \<le> P * r * ((1 + r) ^ n - (1 + r) ^ k) / ((1 + r) ^ n - 1)"
    using D by (simp add: divide_right_mono)
  have "P * r * (1 + r) ^ k \<le> P * r * (1 + r) ^ Suc k"
    using pw Pr by (intro mult_left_mono) simp_all
  then have p: "P * r * (1 + r) ^ k / ((1 + r) ^ n - 1)
      \<le> P * r * (1 + r) ^ Suc k / ((1 + r) ^ n - 1)"
    using D by (simp add: divide_right_mono)
  show ?thesis
    unfolding row_values [OF rate0 k, of P] row_values [OF rate0 assms(5), of P]
      r_def [symmetric] less_eq_jsnum_def jle.simps
    using i p by (simp add: cents_mono)
qed

theorem schedule_portions_monotone_witness:
  "(0::real) < 800000 \<and> (1::real) / 1000000 \<le> 8 \<and> (8::real) \<le> 40
   \<and> (60::nat) \<le> 1000 \<and> Suc 0 < (60::nat) \<and> Suc (Suc 0) < (60::nat)
   \<and> interestPayment (generateAmortizationSchedule (Fin 800000) (Fin 8) 60 ! Suc 0)
       \<le> interestPayment (generateAmortizationSchedule (Fin 800000) (Fin 8) 60 ! 0)
   \<and> principalPayment (generateAmortizationSchedule (Fin 800000) (Fin 8) 60 ! 0)
       \<le> principalPayment (generateAmortizationSchedule (Fin 800000) (Fin 8) 60 ! Suc 0)"
  using schedule_portions_monotone [of 800000 8 60 0] by simp

text \<open>
  The claim as stated (strictly decreasing, strictly increasing) fails when consecutive
  portions round to the same cent. A loan of 1 at 9.375 percent over 3 months reports the
  interest 0.01, 0.01, 0 and the principal 0.33, 0.33, 0.34.
\<close>

theorem schedule_portions_strict_counterexample:
  "\<not> (interestPayment (generateAmortizationSchedule (Fin 1) (Fin (75 / 8)) 3 ! 1)
       < interestPayment (generateAmortizationSchedule (Fin 1) (Fin (75 / 8)) 3 ! 0))
   \<and> \<not> (principalPayment (generateAmortizationSchedule (Fin 1) (Fin (75 / 8)) 3 ! 0)
       < principalPayment (generateAmortizationSchedule (Fin 1) (Fin (75 / 8)) 3 ! 1))"
  by (simp add: generateAmortizationSchedule_def Let_def jsnum_ops Math_pow_Fin
      schedule_loop.simps power_divide)

lemma small_loan_portions:
  "map interestPayment (generateAmortizationSchedule (Fin 1) (Fin (75 / 8)) 3) =
     [Fin (1 / 100), Fin (1 / 100), Fin 0]"
  "map principalPayment (generateAmortizationSchedule (Fin 1) (Fin (75 / 8)) 3) =
     [Fin (33 / 100), Fin (33 / 100), Fin (34 / 100)]"
  by (simp_all add: generateAmortizationSchedule_def Let_def jsnum_ops Math_pow_Fin
      schedule_loop.simps power_divide)




end
